theory Spec2Isabelle
  imports Complex_Main "HOL-Library.Multiset"
begin

section \<open>Conventions of the embedding\<close>

text \<open>
  The program is a lift calculator: a grid has a mass, a gravity and three pairs of
  thruster counts; every metric is a closed formula over them.

  Python's \<open>int\<close> is unbounded and is modelled by \<open>int\<close>. Python's \<open>float\<close> is
  modelled by \<open>real\<close>: the arithmetic of the model is exact, so rounding, overflow,
  infinities and NaN are outside it. True division \<open>/\<close> raises \<open>ZeroDivisionError\<close>
  on a zero divisor; that raise is a branch of the model. A dictionary built from a
  literal with fixed keys is a record of its values, together with the list of the values
  in insertion order where the source iterates over it.
\<close>

text \<open>
  The dictionary forms are JSON values. An object is the list of its members in insertion
  order, with distinct keys.
\<close>

datatype json =
    JNull
  | JBool bool
  | JInt int
  | JFloat real
  | JStr string
  | JArr "json list"
  | JObj "(string \<times> json) list"

text \<open>
  Errors are values. \<open>OutsideModel\<close> is not an exception of the program: Python stores a
  keyword argument in a dataclass field without looking at its type, a record field of the
  model cannot hold a value of another type, and the model answers \<open>OutsideModel\<close> there.
\<close>

datatype py_error =
    ZeroDivisionError
  | KeyError
  | TypeError
  | AttributeError
  | JSONDecodeError
  | OutsideModel

fun bind_err :: "'e + 'a \<Rightarrow> ('a \<Rightarrow> 'e + 'b) \<Rightarrow> 'e + 'b" where
  "bind_err (Inl e) f = Inl e"
| "bind_err (Inr v) f = f v"

definition py_div :: "real \<Rightarrow> real \<Rightarrow> py_error + real" where
  "py_div a b = (if b = 0 then Inl ZeroDivisionError else Inr (a / b))"

text \<open>The builtin \<open>sum\<close>: start at 0 and add the elements from left to right.\<close>

definition py_sum :: "'a::monoid_add list \<Rightarrow> 'a" where
  "py_sum xs = foldl (+) 0 xs"

section \<open>models.py\<close>

datatype thrust_type = Atmospheric | Ion | Hydrogen

datatype size_class = Small | Large

text \<open>
  The table \<open>THRUSTER_SPECS\<close>, in newtons. Its keys are the strings
  \<open>'atmospheric'\<close>, \<open>'ion'\<close>, \<open>'hydrogen'\<close> and \<open>'small'\<close>, \<open>'large'\<close>;
  every call of \<open>calculate_thrust\<close> in the program passes one of the three literals, so
  the keys are two enumerations and the lookup is total.
\<close>

fun THRUSTER_SPECS :: "thrust_type \<Rightarrow> size_class \<Rightarrow> int" where
  "THRUSTER_SPECS Atmospheric Small = 82000"
| "THRUSTER_SPECS Atmospheric Large = 408000"
| "THRUSTER_SPECS Ion Small = 14400"
| "THRUSTER_SPECS Ion Large = 172800"
| "THRUSTER_SPECS Hydrogen Small = 98400"
| "THRUSTER_SPECS Hydrogen Large = 478800"

record ThrusterCount =
  small :: int
  large :: int

text \<open>The generated constructor of \<open>ThrusterCount\<close>: both fields default to 0.\<close>

definition ThrusterCount_init :: "int option \<Rightarrow> int option \<Rightarrow> ThrusterCount" where
  "ThrusterCount_init s l =
     \<lparr>small = (case s of None \<Rightarrow> 0 | Some v \<Rightarrow> v),
      large = (case l of None \<Rightarrow> 0 | Some v \<Rightarrow> v)\<rparr>"

definition calculate_thrust :: "ThrusterCount \<Rightarrow> thrust_type \<Rightarrow> int" where
  "calculate_thrust self thrust_type =
     (let specs = THRUSTER_SPECS thrust_type
      in (small self * specs Small) + (large self * specs Large))"

record GridSpecifications =
  mass :: real
  gravity :: real
  atmospheric_thrusters :: ThrusterCount
  ion_thrusters :: ThrusterCount
  hydrogen_thrusters :: ThrusterCount

text \<open>
  \<open>x or ThrusterCount()\<close> in \<open>__post_init__\<close>: \<open>None\<close> is falsy, and an instance of
  the dataclass is always truthy (the class defines neither \<open>__bool__\<close> nor \<open>__len__\<close>).
\<close>

definition or_ThrusterCount :: "ThrusterCount option \<Rightarrow> ThrusterCount" where
  "or_ThrusterCount x = (case x of None \<Rightarrow> ThrusterCount_init None None | Some t \<Rightarrow> t)"

text \<open>
  The generated constructor of \<open>GridSpecifications\<close> followed by \<open>__post_init__\<close>.
  \<open>mass\<close> is required; an omitted \<open>gravity\<close> is 9.81; an omitted thruster field is
  \<open>None\<close> until \<open>__post_init__\<close> replaces it.
\<close>

definition GridSpecifications_init ::
  "real \<Rightarrow> real option \<Rightarrow> ThrusterCount option \<Rightarrow> ThrusterCount option \<Rightarrow>
   ThrusterCount option \<Rightarrow> GridSpecifications" where
  "GridSpecifications_init m g a i h =
     \<lparr>mass = m,
      gravity = (case g of None \<Rightarrow> 981 / 100 | Some v \<Rightarrow> v),
      atmospheric_thrusters = or_ThrusterCount a,
      ion_thrusters = or_ThrusterCount i,
      hydrogen_thrusters = or_ThrusterCount h\<rparr>"

text \<open>
  A dictionary with the keys \<open>'atmospheric'\<close>, \<open>'ion'\<close>, \<open>'hydrogen'\<close>, inserted in
  that order; \<open>dict_values\<close> is \<open>.values()\<close>.
\<close>

record 'a by_type =
  atmospheric :: 'a
  ion :: 'a
  hydrogen :: 'a

definition dict_values :: "'a by_type \<Rightarrow> 'a list" where
  "dict_values d = [atmospheric d, ion d, hydrogen d]"

definition calculate_thrust_by_type :: "GridSpecifications \<Rightarrow> int by_type" where
  "calculate_thrust_by_type self =
     \<lparr>atmospheric = calculate_thrust (atmospheric_thrusters self) Atmospheric,
      ion = calculate_thrust (ion_thrusters self) Ion,
      hydrogen = calculate_thrust (hydrogen_thrusters self) Hydrogen\<rparr>"

definition calculate_total_thrust :: "GridSpecifications \<Rightarrow> int" where
  "calculate_total_thrust self =
     (let thrusts = calculate_thrust_by_type self in py_sum (dict_values thrusts))"

definition calculate_lift_capacity :: "GridSpecifications \<Rightarrow> py_error + real" where
  "calculate_lift_capacity self =
     (let total_thrust = calculate_total_thrust self
      in py_div (real_of_int total_thrust - (mass self * gravity self)) (gravity self))"

text \<open>\<open>data[key]\<close> on a parsed JSON value.\<close>

fun getitem :: "json \<Rightarrow> string \<Rightarrow> py_error + json" where
  "getitem (JObj kvs) k = (case map_of kvs k of None \<Rightarrow> Inl KeyError | Some v \<Rightarrow> Inr v)"
| "getitem _ k = Inl TypeError"

fun as_int :: "json \<Rightarrow> py_error + int" where
  "as_int (JInt n) = Inr n"
| "as_int _ = Inl OutsideModel"

fun as_float :: "json \<Rightarrow> py_error + real" where
  "as_float (JFloat x) = Inr x"
| "as_float (JInt n) = Inr (real_of_int n)"
| "as_float _ = Inl OutsideModel"

fun as_str :: "json \<Rightarrow> py_error + string" where
  "as_str (JStr s) = Inr s"
| "as_str _ = Inl OutsideModel"

text \<open>A keyword argument with a default: absent, or present with a value.\<close>

fun optional :: "(json \<Rightarrow> py_error + 'a) \<Rightarrow> json option \<Rightarrow> py_error + 'a option" where
  "optional conv None = Inr None"
| "optional conv (Some j) = bind_err (conv j) (\<lambda>v. Inr (Some v))"

definition ThrusterCount_to_dict :: "ThrusterCount \<Rightarrow> json" where
  "ThrusterCount_to_dict self =
     JObj [(''small'', JInt (small self)), (''large'', JInt (large self))]"

text \<open>
  \<open>cls(**data)\<close>: \<open>data\<close> must be a mapping, a key that is not a field is an unexpected
  keyword argument, and a missing key takes the default.
\<close>

fun ThrusterCount_from_dict :: "json \<Rightarrow> py_error + ThrusterCount" where
  "ThrusterCount_from_dict (JObj kvs) =
     (if \<not> list_all (\<lambda>k. k = ''small'' \<or> k = ''large'') (map fst kvs) then Inl TypeError
      else bind_err (optional as_int (map_of kvs ''small'')) (\<lambda>s.
           bind_err (optional as_int (map_of kvs ''large'')) (\<lambda>l.
           Inr (ThrusterCount_init s l))))"
| "ThrusterCount_from_dict _ = Inl TypeError"

definition to_dict :: "GridSpecifications \<Rightarrow> json" where
  "to_dict self =
     JObj [(''mass'', JFloat (mass self)),
           (''gravity'', JFloat (gravity self)),
           (''atmospheric_thrusters'', ThrusterCount_to_dict (atmospheric_thrusters self)),
           (''ion_thrusters'', ThrusterCount_to_dict (ion_thrusters self)),
           (''hydrogen_thrusters'', ThrusterCount_to_dict (hydrogen_thrusters self))]"

text \<open>
  \<open>from_dict\<close>: \<open>data.copy()\<close> exists on a dictionary and on a list only; the three
  thruster entries are read (\<open>KeyError\<close> when one is missing) and converted in order;
  then \<open>cls(**specs_data)\<close> refuses a key that is not a field and a missing \<open>mass\<close>.
\<close>

fun from_dict :: "json \<Rightarrow> py_error + GridSpecifications" where
  "from_dict (JObj kvs) =
     bind_err (getitem (JObj kvs) ''atmospheric_thrusters'') (\<lambda>ja.
     bind_err (ThrusterCount_from_dict ja) (\<lambda>a.
     bind_err (getitem (JObj kvs) ''ion_thrusters'') (\<lambda>ji.
     bind_err (ThrusterCount_from_dict ji) (\<lambda>i.
     bind_err (getitem (JObj kvs) ''hydrogen_thrusters'') (\<lambda>jh.
     bind_err (ThrusterCount_from_dict jh) (\<lambda>h.
       if \<not> list_all (\<lambda>k. k = ''mass'' \<or> k = ''gravity'' \<or> k = ''atmospheric_thrusters''
                            \<or> k = ''ion_thrusters'' \<or> k = ''hydrogen_thrusters'')
                 (map fst kvs)
       then Inl TypeError
       else (case map_of kvs ''mass'' of
               None \<Rightarrow> Inl TypeError
             | Some jm \<Rightarrow>
                 bind_err (as_float jm) (\<lambda>m.
                 bind_err (optional as_float (map_of kvs ''gravity'')) (\<lambda>g.
                 Inr (GridSpecifications_init m g (Some a) (Some i) (Some h)))))))))))"
| "from_dict (JArr xs) = Inl TypeError"
| "from_dict _ = Inl AttributeError"

record Preset =
  name :: string
  specifications :: GridSpecifications

text \<open>
  \<open>json.dumps\<close> and \<open>json.loads\<close> belong to the standard library; they are
  parameters of \<open>save\<close> and \<open>load\<close>.
\<close>

definition save :: "(json \<Rightarrow> string) \<Rightarrow> Preset \<Rightarrow> string" where
  "save dumps self =
     dumps (JObj [(''name'', JStr (name self)),
                  (''specifications'', to_dict (specifications self))])"

definition load :: "(string \<Rightarrow> py_error + json) \<Rightarrow> string \<Rightarrow> py_error + Preset" where
  "load loads data =
     bind_err (loads data) (\<lambda>parsed.
     bind_err (getitem parsed ''name'') (\<lambda>jn.
     bind_err (getitem parsed ''specifications'') (\<lambda>js.
     bind_err (from_dict js) (\<lambda>sp.
     bind_err (as_str jn) (\<lambda>n.
     Inr \<lparr>name = n, specifications = sp\<rparr>)))))"

section \<open>ai_assistant.py\<close>

text \<open>
  The methods of \<open>ThrusterAIAssistant\<close>; the private ones are named without their
  leading underscore.

  The expression \<open>total_thrust / (specs.mass * specs.gravity) if specs.mass > 0 else 0\<close>
  of \<open>analyze_grid\<close> and \<open>_generate_suggested_changes\<close>.
\<close>

definition twr_if_mass :: "GridSpecifications \<Rightarrow> int \<Rightarrow> py_error + real" where
  "twr_if_mass specs total_thrust =
     (if mass specs > 0 then py_div (real_of_int total_thrust) (mass specs * gravity specs)
      else Inr 0)"









definition analyze_thrust_balance :: "real by_type \<Rightarrow> string" where
  "analyze_thrust_balance distribution =
     (if list_all (\<lambda>v. v = 0) (dict_values distribution) then ''No thrusters configured''
      else if atmospheric distribution > 60
        then ''Heavy atmospheric focus - consider diversifying for space operations''
      else if ion distribution > 60 then ''Heavy ion focus - may struggle in atmosphere''
      else if hydrogen distribution > 60 then ''Heavy hydrogen focus - check fuel efficiency''
      else ''Balanced thrust distribution'')"



section \<open>utils.py\<close>

datatype cell = CStr string | CInt int | CFloat real

text \<open>
  \<open>export_grid_to_csv\<close>: the rows handed to the CSV writer. \<open>format_number\<close> is the
  format \<open>:,.2f\<close>, a parameter. The titles of the three thrust rows are
  \<open>thruster_type.title()\<close> of the keys. The superscript two of the gravity label is
  written as its two UTF-8 bytes. An exception leaves the function before it returns the
  buffer.
\<close>

definition export_grid_to_csv ::
  "(real \<Rightarrow> string) \<Rightarrow> GridSpecifications \<Rightarrow> py_error + cell list list" where
  "export_grid_to_csv format_number specs =
     (let rows =
            [[CStr ''Space Engineers Grid Specifications''],
             [],
             [CStr ''Basic Specifications''],
             [CStr ''Mass (kg)'', CFloat (mass specs)],
             [CStr (''Gravity (m/s'' @ [CHR 0xC2, CHR 0xB2] @ '')''), CFloat (gravity specs)],
             [],
             [CStr ''Thruster Configuration''],
             [CStr ''Type'', CStr ''Small'', CStr ''Large''],
             [CStr ''Atmospheric'', CInt (small (atmospheric_thrusters specs)),
              CInt (large (atmospheric_thrusters specs))],
             [CStr ''Ion'', CInt (small (ion_thrusters specs)),
              CInt (large (ion_thrusters specs))],
             [CStr ''Hydrogen'', CInt (small (hydrogen_thrusters specs)),
              CInt (large (hydrogen_thrusters specs))],
             [],
             [CStr ''Performance Analysis'']];
          thrusts = calculate_thrust_by_type specs;
          total_thrust = calculate_total_thrust specs
      in bind_err (calculate_lift_capacity specs) (\<lambda>lift_capacity.
         let rows = rows @
               [[CStr ''Total Thrust (N)'', CStr (format_number (real_of_int total_thrust))],
                [CStr ''Atmospheric Thrust (N)'',
                 CStr (format_number (real_of_int (atmospheric thrusts)))],
                [CStr ''Ion Thrust (N)'', CStr (format_number (real_of_int (ion thrusts)))],
                [CStr ''Hydrogen Thrust (N)'',
                 CStr (format_number (real_of_int (hydrogen thrusts)))],
                [CStr ''Required Hover Thrust (N)'',
                 CStr (format_number (mass specs * gravity specs))],
                [CStr ''Lift Capacity (kg)'', CStr (format_number lift_capacity)]]
         in bind_err (py_div (real_of_int total_thrust) (mass specs * gravity specs)) (\<lambda>twr.
            Inr (rows @ [[CStr ''Thrust-to-Weight Ratio'', CStr (format_number twr)]]))))"

section \<open>The specification's operations, in its own words\<close>




datatype verdict = NoThrusters | AtmosphericHeavy | IonHeavy | HydrogenHeavy | Balanced

definition spec_thrustBalanceVerdict :: "real by_type \<Rightarrow> verdict" where
  "spec_thrustBalanceVerdict d =
     (if atmospheric d = 0 \<and> ion d = 0 \<and> hydrogen d = 0 then NoThrusters
      else if atmospheric d > 60 then AtmosphericHeavy
      else if ion d > 60 then IonHeavy
      else if hydrogen d > 60 then HydrogenHeavy
      else Balanced)"

text \<open>The string the source returns for each verdict.\<close>

fun verdict_text :: "verdict \<Rightarrow> string" where
  "verdict_text NoThrusters = ''No thrusters configured''"
| "verdict_text AtmosphericHeavy =
     ''Heavy atmospheric focus - consider diversifying for space operations''"
| "verdict_text IonHeavy = ''Heavy ion focus - may struggle in atmosphere''"
| "verdict_text HydrogenHeavy = ''Heavy hydrogen focus - check fuel efficiency''"
| "verdict_text Balanced = ''Balanced thrust distribution''"



section \<open>Example grids\<close>

text \<open>
  The scenario of the specification (1000 kg, gravity 9.81, two small atmospheric
  thrusters), the same grid without gravity, the same grid without mass, and the grid with
  no mass and no thruster.
\<close>

definition no_thrusters :: ThrusterCount where
  "no_thrusters = \<lparr>small = 0, large = 0\<rparr>"

definition scenario_grid :: GridSpecifications where
  "scenario_grid =
     \<lparr>mass = 1000, gravity = 981 / 100,
      atmospheric_thrusters = \<lparr>small = 2, large = 0\<rparr>,
      ion_thrusters = no_thrusters, hydrogen_thrusters = no_thrusters\<rparr>"

definition zero_gravity_grid :: GridSpecifications where
  "zero_gravity_grid = scenario_grid\<lparr>gravity := 0\<rparr>"

definition zero_mass_grid :: GridSpecifications where
  "zero_mass_grid = scenario_grid\<lparr>mass := 0\<rparr>"

definition empty_grid :: GridSpecifications where
  "empty_grid = scenario_grid\<lparr>mass := 0, atmospheric_thrusters := no_thrusters\<rparr>"

text \<open>
  A preset of the scenario grid, and a serializer and a parser that know one document:
  every value is written as the text \<open>lander.json\<close>, and that text is read back as the
  dictionary of the preset.
\<close>

definition lander :: Preset where
  "lander = \<lparr>name = ''lander'', specifications = scenario_grid\<rparr>"

definition lander_dumps :: "json \<Rightarrow> string" where
  "lander_dumps j = ''lander.json''"

definition lander_loads :: "string \<Rightarrow> py_error + json" where
  "lander_loads t =
     (if t = ''lander.json''
      then Inr (JObj [(''name'', JStr ''lander''), (''specifications'', to_dict scenario_grid)])
      else Inl JSONDecodeError)"




section \<open>Properties of models.py\<close>

lemma py_sum_sum_list: "py_sum xs = sum_list xs"
proof -
  have "foldl (+) a xs = a + sum_list xs" for a :: "'a::monoid_add"
    by (induction xs arbitrary: a) (simp_all add: add.assoc)
  from this [of 0] show ?thesis by (simp add: py_sum_def)
qed

lemma py_sum_mset:
  fixes xs ys :: "'a::comm_monoid_add list"
  assumes "mset xs = mset ys"
  shows "py_sum xs = py_sum ys"
proof -
  have "sum_list xs = sum_mset (mset xs)" by (simp add: sum_mset_sum_list)
  also have "\<dots> = sum_mset (mset ys)" using assms by simp
  also have "\<dots> = sum_list ys" by (simp add: sum_mset_sum_list)
  finally show ?thesis by (simp add: py_sum_sum_list)
qed

lemma calculate_total_thrust_eq:
  "calculate_total_thrust s =
     atmospheric (calculate_thrust_by_type s) + ion (calculate_thrust_by_type s)
       + hydrogen (calculate_thrust_by_type s)"
  by (simp add: calculate_total_thrust_def dict_values_def py_sum_def Let_def)

lemmas grid_defs =
  scenario_grid_def zero_gravity_grid_def zero_mass_grid_def empty_grid_def no_thrusters_def

lemmas thrust_defs =
  calculate_total_thrust_eq calculate_thrust_by_type_def calculate_thrust_def Let_def

text \<open>
  Claim C1. The thrust of each propulsion type is the small count times the small entry
  of the force table plus the large count times its large entry; the total thrust is the
  sum atmospheric + ion + hydrogen of the three, and summing the three values in any other
  order gives the same total. It holds for all integer counts, the non-negative ones
  among them.
\<close>

theorem thrust_by_type_and_total:
  "atmospheric (calculate_thrust_by_type s) =
       small (atmospheric_thrusters s) * THRUSTER_SPECS Atmospheric Small
     + large (atmospheric_thrusters s) * THRUSTER_SPECS Atmospheric Large
   \<and> ion (calculate_thrust_by_type s) =
       small (ion_thrusters s) * THRUSTER_SPECS Ion Small
     + large (ion_thrusters s) * THRUSTER_SPECS Ion Large
   \<and> hydrogen (calculate_thrust_by_type s) =
       small (hydrogen_thrusters s) * THRUSTER_SPECS Hydrogen Small
     + large (hydrogen_thrusters s) * THRUSTER_SPECS Hydrogen Large
   \<and> calculate_total_thrust s =
       atmospheric (calculate_thrust_by_type s) + ion (calculate_thrust_by_type s)
     + hydrogen (calculate_thrust_by_type s)
   \<and> (\<forall>vs. mset vs = mset (dict_values (calculate_thrust_by_type s))
         \<longrightarrow> py_sum vs = calculate_total_thrust s)"
proof -
  have "py_sum vs = calculate_total_thrust s"
    if "mset vs = mset (dict_values (calculate_thrust_by_type s))" for vs
    using py_sum_mset [OF that] by (simp add: calculate_total_thrust_def Let_def)
  then show ?thesis
    by (simp add: calculate_thrust_by_type_def calculate_thrust_def
        calculate_total_thrust_eq Let_def)
qed

theorem thrust_by_type_and_total_witness:
  "mset [0, 0, 164000] = mset (dict_values (calculate_thrust_by_type scenario_grid))
   \<and> py_sum [0, 0, 164000 :: int] = calculate_total_thrust scenario_grid
   \<and> calculate_thrust_by_type scenario_grid =
       \<lparr>atmospheric = 164000, ion = 0, hydrogen = 0\<rparr>
   \<and> calculate_total_thrust scenario_grid = 164000"
  using thrust_by_type_and_total [of scenario_grid]
  by (simp add: grid_defs thrust_defs dict_values_def py_sum_def)



lemma ThrusterCount_round_trip:
  "ThrusterCount_from_dict (ThrusterCount_to_dict t) = Inr t"
  by (simp add: ThrusterCount_to_dict_def ThrusterCount_init_def)

lemma from_dict_to_dict: "from_dict (to_dict s) = Inr s"
  by (simp add: to_dict_def ThrusterCount_round_trip GridSpecifications_init_def
      or_ThrusterCount_def)

text \<open>
  Claim C9. For every grid \<open>s\<close>, \<open>from_dict (to_dict s)\<close> succeeds and is \<open>s\<close>, field by
  field. For every preset \<open>p\<close>, \<open>load\<close> of \<open>save p\<close> succeeds and is \<open>p\<close>, provided the
  library's \<open>json.loads\<close> reads the text that \<open>json.dumps\<close> wrote for the dictionary of
  \<open>p\<close> back as that dictionary.
\<close>

theorem serialization_round_trip:
  "from_dict (to_dict s) = Inr s
   \<and> (loads (dumps (JObj [(''name'', JStr (name p)),
                           (''specifications'', to_dict (specifications p))])) =
        Inr (JObj [(''name'', JStr (name p)),
                   (''specifications'', to_dict (specifications p))])
      \<longrightarrow> load loads (save dumps p) = Inr p)"
  by (simp add: from_dict_to_dict load_def save_def)

theorem serialization_round_trip_witness:
  "lander_loads (lander_dumps (JObj [(''name'', JStr (name lander)),
                                     (''specifications'', to_dict (specifications lander))])) =
     Inr (JObj [(''name'', JStr (name lander)),
                (''specifications'', to_dict (specifications lander))])
   \<and> from_dict (to_dict scenario_grid) = Inr scenario_grid
   \<and> load lander_loads (save lander_dumps lander) = Inr lander"
  using serialization_round_trip [of scenario_grid lander_loads lander_dumps lander]
  by (simp add: lander_loads_def lander_dumps_def lander_def)

text \<open>
  Claim C10. A grid constructed with a thruster field omitted or \<open>None\<close> has the zero
  count \<open>{small: 0, large: 0}\<close> in that field, and one constructed without gravity has
  gravity 9.81; a field that is supplied is kept. So every constructed grid has its three
  thruster fields, and the thrust metrics are defined on it: with all three omitted the
  thrust of each type and the total thrust are 0, and with the default gravity the lift
  capacity is minus the mass.
\<close>

theorem post_init_defaults:
  "atmospheric_thrusters (GridSpecifications_init m g None i h) = \<lparr>small = 0, large = 0\<rparr>
   \<and> ion_thrusters (GridSpecifications_init m g a None h) = \<lparr>small = 0, large = 0\<rparr>
   \<and> hydrogen_thrusters (GridSpecifications_init m g a i None) = \<lparr>small = 0, large = 0\<rparr>
   \<and> gravity (GridSpecifications_init m None a i h) = 981 / 100
   \<and> atmospheric_thrusters (GridSpecifications_init m g (Some t) i h) = t
   \<and> ion_thrusters (GridSpecifications_init m g a (Some t) h) = t
   \<and> hydrogen_thrusters (GridSpecifications_init m g a i (Some t)) = t
   \<and> gravity (GridSpecifications_init m (Some x) a i h) = x
   \<and> mass (GridSpecifications_init m g a i h) = m
   \<and> calculate_thrust_by_type (GridSpecifications_init m g None None None) =
       \<lparr>atmospheric = 0, ion = 0, hydrogen = 0\<rparr>
   \<and> calculate_total_thrust (GridSpecifications_init m g None None None) = 0
   \<and> calculate_lift_capacity (GridSpecifications_init m None None None None) = Inr (- m)"
  by (simp add: GridSpecifications_init_def or_ThrusterCount_def ThrusterCount_init_def
      thrust_defs calculate_lift_capacity_def py_div_def)

section \<open>Properties of ai_assistant.py\<close>











text \<open>
  Claim C8. The verdict of the source is the text of the specification's verdict:
  NoThrusters when the three percentages are 0, otherwise the Heavy variant of the first
  type above 60 in the order atmospheric, ion, hydrogen, otherwise Balanced. In
  particular 70/20/10 is AtmosphericHeavy, 0/0/0 is NoThrusters and 34/33/33 is Balanced.
\<close>

theorem thrust_balance_verdict:
  "analyze_thrust_balance d = verdict_text (spec_thrustBalanceVerdict d)
   \<and> spec_thrustBalanceVerdict \<lparr>atmospheric = 70, ion = 20, hydrogen = 10\<rparr> = AtmosphericHeavy
   \<and> analyze_thrust_balance \<lparr>atmospheric = 70, ion = 20, hydrogen = 10\<rparr> =
       ''Heavy atmospheric focus - consider diversifying for space operations''
   \<and> spec_thrustBalanceVerdict \<lparr>atmospheric = 0, ion = 0, hydrogen = 0\<rparr> = NoThrusters
   \<and> analyze_thrust_balance \<lparr>atmospheric = 0, ion = 0, hydrogen = 0\<rparr> =
       ''No thrusters configured''
   \<and> spec_thrustBalanceVerdict \<lparr>atmospheric = 34, ion = 33, hydrogen = 33\<rparr> = Balanced
   \<and> analyze_thrust_balance \<lparr>atmospheric = 34, ion = 33, hydrogen = 33\<rparr> =
       ''Balanced thrust distribution''"
  by (simp add: analyze_thrust_balance_def spec_thrustBalanceVerdict_def dict_values_def)







section \<open>Properties of utils.py\<close>

text \<open>
  Claim C5. On the scenario grid with mass 0 and gravity 9.81, the guarded expression of
  ai_assistant.py gives the thrust-to-weight ratio 0. \<open>export_grid_to_csv\<close> computes the
  ratio of the same grid without the guard and raises \<open>ZeroDivisionError\<close> instead of
  writing 0.
\<close>

theorem twr_zero_mass_export_raises:
  "mass zero_mass_grid = 0 \<and> 0 < gravity zero_mass_grid
   \<and> twr_if_mass zero_mass_grid (calculate_total_thrust zero_mass_grid) = Inr 0
   \<and> export_grid_to_csv format_number zero_mass_grid = Inl ZeroDivisionError"
  by (simp add: grid_defs thrust_defs twr_if_mass_def export_grid_to_csv_def
      calculate_lift_capacity_def py_div_def)

end
